theory Spec2Isabelle
  imports Main
begin

section \<open>Exceptions, iterators and objects\<close>

text \<open>
  The exception classes that matter to \<^verbatim>\<open>dataprocessor.py\<close>. The first five are raised by
  the interpreter itself: \<open>StopIteration\<close> by \<^verbatim>\<open>next()\<close> on an exhausted iterator,
  \<open>IndexError\<close> by \<^verbatim>\<open>self.dps[0]\<close> on an empty tuple, \<open>TypeError\<close> by iterating an object
  that is not iterable (or whose \<^verbatim>\<open>__iter__\<close> returns a non-iterator), \<open>AttributeError\<close> by
  calling a method the object does not have, \<open>RuntimeError\<close> when the recursion limit is
  exceeded. \<open>ValueError\<close> is what \<^verbatim>\<open>np.asarray\<close> raises on frames it cannot put into one
  array. \<open>ConfigurationError\<close> and \<open>StarvationError\<close> are the two classes the
  specification names; no statement of the source raises them.
\<close>

datatype py_error =
    StopIteration | IndexError | TypeError | AttributeError | RuntimeError | ValueError
  | ConfigurationError | StarvationError

text \<open>
  An iterator is what successive calls of \<^verbatim>\<open>next()\<close> observe: either the call raises
  (\<open>Raise StopIteration\<close> is the regular end), or it returns a frame and leaves the
  rest of the iterator. The type is coinductive: a generator may yield for ever.
\<close>

codatatype 'a pyiter = Raise py_error | Yield 'a "'a pyiter"

text \<open>\<^verbatim>\<open>iter(xs)\<close> for a list \<open>xs\<close>.\<close>

primrec iter_list :: "'a list \<Rightarrow> 'a pyiter" where
  "iter_list [] = Raise StopIteration"
| "iter_list (x # xs) = Yield x (iter_list xs)"

text \<open>\<^verbatim>\<open>it.next()\<close>: the frame and the advanced iterator, or the exception.\<close>

definition pynext :: "'a pyiter \<Rightarrow> py_error + ('a \<times> 'a pyiter)" where
  "pynext it = (case it of Raise e \<Rightarrow> Inl e | Yield x rest \<Rightarrow> Inr (x, rest))"

text \<open>
  The list comprehension \<^verbatim>\<open>[x for x in it]\<close>: it collects frames until \<open>StopIteration\<close>,
  lets any other exception through, and does not return (\<open>None\<close>) on an iterator that
  yields for ever.
\<close>

partial_function (option) list_of_iter ::
  "'a pyiter \<Rightarrow> 'a list \<Rightarrow> (py_error + 'a list) option" where
  "list_of_iter it acc =
     (case it of
        Raise e \<Rightarrow> Some (if e = StopIteration then Inr acc else Inl e)
      | Yield x rest \<Rightarrow> list_of_iter rest (acc @ [x]))"

text \<open>
  \<^verbatim>\<open>np.asarray([x for x in it])\<close>. \<^verbatim>\<open>np.asarray\<close> belongs to numpy, not to this program, and
  is a parameter: \<open>asarray xs\<close> is the array numpy builds from the list \<open>xs\<close>, or the
  exception it raises. An array \<open>a\<close> is read through \<^verbatim>\<open>len(a)\<close> and \<^verbatim>\<open>a[i]\<close>, as the list of
  its entries \<^verbatim>\<open>a[0]\<close>, ..., \<^verbatim>\<open>a[len(a) - 1]\<close>. Nothing is assumed of \<open>asarray\<close>: numpy
  converts the frames to one element type and may change them, or refuse them.
\<close>

definition asarray_of_iter ::
  "('a list \<Rightarrow> py_error + 'a list) \<Rightarrow> 'a pyiter \<Rightarrow> (py_error + 'a list) option" where
  "asarray_of_iter asarray it =
     (case list_of_iter it [] of
        None \<Rightarrow> None
      | Some (Inl e) \<Rightarrow> Some (Inl e)
      | Some (Inr xs) \<Rightarrow> Some (asarray xs))"

text \<open>
  The objects a \<^verbatim>\<open>Pipeline\<close> is built from. \<open>Source src\<close> is an instance of a concrete
  subclass of \<^verbatim>\<open>Source\<close> whose \<^verbatim>\<open>__iter__\<close> returns the iterator \<open>src\<close>; it has no
  \<^verbatim>\<open>process_frame\<close> or \<^verbatim>\<open>process_sequence\<close>. \<open>DataProcessor pf ps\<close> is an instance of a
  subclass of \<^verbatim>\<open>DataProcessor\<close> other than \<^verbatim>\<open>Pipeline\<close>: \<open>pf\<close> is its own \<^verbatim>\<open>process_frame\<close>
  when the subclass overrides that method, \<open>ps\<close> its own \<^verbatim>\<open>process_sequence\<close>. An
  overriding \<^verbatim>\<open>process_sequence\<close> is a generator function, as the docstring of the base
  method requires, and reads its argument by iterating over it. \<open>Pipeline dps\<close> is an
  instance of \<^verbatim>\<open>Pipeline\<close> with the attribute \<^verbatim>\<open>dps\<close>.
\<close>

datatype 'a pyobj =
    is_Source: Source "'a pyiter"
  | DataProcessor "('a \<Rightarrow> py_error + 'a) option" "('a pyiter \<Rightarrow> 'a pyiter) option"
  | Pipeline "'a pyobj list"

text \<open>
  What \<^verbatim>\<open>Pipeline.process_sequence\<close> returns: a generator, or (with \<^verbatim>\<open>frames\<close> omitted
  and a single stage that is not a \<^verbatim>\<open>Source\<close>) that stage object itself.
\<close>

datatype 'a pyval = Gen "'a pyiter" | Obj "'a pyobj"

section \<open>The class DataProcessor\<close>

text \<open>
  \<^verbatim>\<open>return self.process_sequence([frame]).next()\<close>. The method is written against
  \<^verbatim>\<open>self.process_sequence\<close>, which is resolved on the object at run time and therefore a
  parameter here.
\<close>

definition DataProcessor_process_frame ::
  "('a pyiter \<Rightarrow> py_error + 'a pyiter) \<Rightarrow> 'a \<Rightarrow> py_error + 'a" where
  "DataProcessor_process_frame self_process_sequence frame =
     (case self_process_sequence (iter_list [frame]) of
        Inl e \<Rightarrow> Inl e
      | Inr gen \<Rightarrow> (case pynext gen of Inl e \<Rightarrow> Inl e | Inr (x, rest) \<Rightarrow> Inr x))"

text \<open>
  \<^verbatim>\<open>for x in frames: yield self.process_frame(x)\<close>. Nothing runs until the generator is
  pulled; each pull takes one frame from \<^verbatim>\<open>frames\<close> and calls \<^verbatim>\<open>self.process_frame\<close> on it.
  An exception of either ends the generator with that exception.
\<close>

primcorec DataProcessor_process_sequence ::
  "('a \<Rightarrow> py_error + 'a) \<Rightarrow> 'a pyiter \<Rightarrow> 'a pyiter" where
  "DataProcessor_process_sequence self_process_frame frames =
     (case frames of
        Raise e \<Rightarrow> Raise e
      | Yield x rest \<Rightarrow>
          (case self_process_frame x of
             Inl e \<Rightarrow> Raise e
           | Inr y \<Rightarrow> Yield y (DataProcessor_process_sequence self_process_frame rest)))"

section \<open>Method resolution\<close>

text \<open>
  \<open>process_frame d obj frame\<close> is the call \<^verbatim>\<open>obj.process_frame(frame)\<close> and
  \<open>process_sequence d obj frames\<close> the call \<^verbatim>\<open>obj.process_sequence(frames)\<close> with the
  argument supplied, each resolved on the class of \<open>obj\<close>. For a \<^verbatim>\<open>Pipeline\<close> the latter is
  the \<^verbatim>\<open>else\<close> branch of \<^verbatim>\<open>Pipeline.process_sequence\<close> followed by its loop
  \<^verbatim>\<open>for dp in self.dps[1:]: gen = dp.process_sequence(gen)\<close>, which is \<open>chain\<close>.

  The two default methods of \<^verbatim>\<open>DataProcessor\<close> call each other, so the recursion between
  them bottoms out only at the interpreter's recursion limit. \<open>d\<close> is the number of
  nested activations of the inherited \<^verbatim>\<open>process_frame\<close> the interpreter still allows;
  entering it with none left raises \<open>RuntimeError\<close>. Overriding methods are opaque and
  are not charged, nor is the descent into the stages of a \<^verbatim>\<open>Pipeline\<close>, which is bounded
  by the nesting of the object.
\<close>

fun process_frame :: "nat \<Rightarrow> 'a pyobj \<Rightarrow> 'a \<Rightarrow> py_error + 'a"
and process_sequence :: "nat \<Rightarrow> 'a pyobj \<Rightarrow> 'a pyiter \<Rightarrow> py_error + 'a pyiter"
and chain :: "nat \<Rightarrow> 'a pyobj list \<Rightarrow> 'a pyiter \<Rightarrow> py_error + 'a pyiter"
where
  "process_frame d (Source src) frame = Inl AttributeError"
| "process_frame d (DataProcessor (Some g) ps) frame = g frame"
| "process_frame 0 (DataProcessor None ps) frame = Inl RuntimeError"
| "process_frame (Suc d) (DataProcessor None ps) frame =
     DataProcessor_process_frame (process_sequence d (DataProcessor None ps)) frame"
| "process_frame 0 (Pipeline dps) frame = Inl RuntimeError"
| "process_frame (Suc d) (Pipeline dps) frame =
     DataProcessor_process_frame (process_sequence d (Pipeline dps)) frame"
| "process_sequence d (Source src) frames = Inl AttributeError"
| "process_sequence d (DataProcessor pf (Some h)) frames = Inr (h frames)"
| "process_sequence d (DataProcessor pf None) frames =
     Inr (DataProcessor_process_sequence (process_frame d (DataProcessor pf None)) frames)"
| "process_sequence d (Pipeline []) frames = Inl IndexError"
| "process_sequence d (Pipeline (dp # dps)) frames =
     (case process_sequence d dp frames of
        Inl e \<Rightarrow> Inl e
      | Inr gen \<Rightarrow> chain d dps gen)"
| "chain d [] gen = Inr gen"
| "chain d (dp # dps) gen =
     (case process_sequence d dp gen of
        Inl e \<Rightarrow> Inl e
      | Inr gen' \<Rightarrow> chain d dps gen')"

section \<open>The classes Source and Pipeline\<close>

text \<open>
  \<open>py_iter d obj\<close> is what a \<^verbatim>\<open>for\<close> loop over \<open>obj\<close> observes. A \<^verbatim>\<open>Source\<close> hands out its
  iterator. A \<^verbatim>\<open>DataProcessor\<close> has no \<^verbatim>\<open>__iter__\<close>: the loop raises \<open>TypeError\<close>.
  \<^verbatim>\<open>Pipeline.__iter__\<close> returns \<^verbatim>\<open>self.process_sequence()\<close>; when that is not an iterator the
  loop raises \<open>TypeError\<close> as well.

  \<open>Pipeline_process_sequence d dps frames\<close> is \<^verbatim>\<open>Pipeline.process_sequence\<close> on an instance
  with the attribute \<open>dps\<close>; \<open>frames = None\<close> is the omitted argument. Both branches read
  \<^verbatim>\<open>self.dps[0]\<close> first. The loop over \<^verbatim>\<open>self.dps[1:]\<close> hands \<^verbatim>\<open>gen\<close> to the next stage, which
  iterates over it.
\<close>

function (sequential) py_iter :: "nat \<Rightarrow> 'a pyobj \<Rightarrow> 'a pyiter"
and Pipeline_process_sequence ::
  "nat \<Rightarrow> 'a pyobj list \<Rightarrow> 'a pyiter option \<Rightarrow> py_error + 'a pyval"
where
  "py_iter d (Source src) = src"
| "py_iter d (DataProcessor pf ps) = Raise TypeError"
| "py_iter d (Pipeline dps) =
     (case Pipeline_process_sequence d dps None of
        Inl e \<Rightarrow> Raise e
      | Inr (Gen g) \<Rightarrow> g
      | Inr (Obj obj) \<Rightarrow> Raise TypeError)"
| "Pipeline_process_sequence d [] frames = Inl IndexError"
| "Pipeline_process_sequence d (dp # dps) None =
     (let gen = (if is_Source dp then Gen (py_iter d dp) else Obj dp)
      in if dps = [] then Inr gen
         else (case chain d dps (case gen of Gen g \<Rightarrow> g | Obj obj \<Rightarrow> py_iter d obj) of
                 Inl e \<Rightarrow> Inl e
               | Inr gen' \<Rightarrow> Inr (Gen gen')))"
| "Pipeline_process_sequence d (dp # dps) (Some frames) =
     (case process_sequence d dp frames of
        Inl e \<Rightarrow> Inl e
      | Inr gen \<Rightarrow>
          (case chain d dps gen of
             Inl e \<Rightarrow> Inl e
           | Inr gen' \<Rightarrow> Inr (Gen gen')))"
  by pat_completeness auto

termination
  by (relation "measure (case_sum (\<lambda>p. size (snd p)) (\<lambda>p. size_list size (fst (snd p))))")
     (auto split: if_splits)

text \<open>Iterating over a value returned by \<^verbatim>\<open>Pipeline.process_sequence\<close>.\<close>

fun val_iter :: "nat \<Rightarrow> 'a pyval \<Rightarrow> 'a pyiter" where
  "val_iter d (Gen g) = g"
| "val_iter d (Obj obj) = py_iter d obj"

text \<open>\<^verbatim>\<open>Pipeline.__init__\<close> stores its arguments and checks nothing.\<close>

definition Pipeline_init :: "'a pyobj list \<Rightarrow> py_error + 'a pyobj" where
  "Pipeline_init dps = Inr (Pipeline dps)"

text \<open>\<^verbatim>\<open>Source.toarray\<close>: \<^verbatim>\<open>np.asarray([x for x in self])\<close>.\<close>

definition Source_toarray ::
  "('a list \<Rightarrow> py_error + 'a list) \<Rightarrow> nat \<Rightarrow> 'a pyobj \<Rightarrow> (py_error + 'a list) option" where
  "Source_toarray asarray d self = asarray_of_iter asarray (py_iter d self)"

text \<open>\<^verbatim>\<open>Pipeline.toarray\<close>: \<^verbatim>\<open>np.asarray([x for x in self.process_sequence(frames)])\<close>.\<close>

definition Pipeline_toarray ::
  "('a list \<Rightarrow> py_error + 'a list) \<Rightarrow> nat \<Rightarrow> 'a pyobj list \<Rightarrow> 'a pyiter option
     \<Rightarrow> (py_error + 'a list) option" where
  "Pipeline_toarray asarray d dps frames =
     (case Pipeline_process_sequence d dps frames of
        Inl e \<Rightarrow> Some (Inl e)
      | Inr gen \<Rightarrow> asarray_of_iter asarray (val_iter d gen))"

text \<open>
  Whether \<^verbatim>\<open>process_sequence()\<close> of a \<^verbatim>\<open>Pipeline\<close> with the stages \<open>dps\<close> (\<^verbatim>\<open>frames\<close> omitted)
  does not raise and returns a generator, or else an object that is not iterable (a loop
  over it raises \<open>TypeError\<close>, as a plain \<^verbatim>\<open>DataProcessor\<close> does). What it excludes is an
  exception, and a returned object that is iterable without being an iterator: a
  \<^verbatim>\<open>Pipeline\<close> that can be iterated.
\<close>

definition flattens_as_first_stage :: "nat \<Rightarrow> 'a pyobj list \<Rightarrow> bool" where
  "flattens_as_first_stage d dps =
     (case Pipeline_process_sequence d dps None of
        Inl e \<Rightarrow> False
      | Inr (Gen g) \<Rightarrow> True
      | Inr (Obj obj) \<Rightarrow> py_iter d obj = Raise TypeError)"

section \<open>Classes of stages\<close>

text \<open>
  \<^verbatim>\<open>isinstance(obj, DataProcessor)\<close>, and which of the two methods the class of \<open>obj\<close>
  defines itself rather than inheriting it from \<^verbatim>\<open>DataProcessor\<close>. \<^verbatim>\<open>Pipeline\<close> defines
  \<^verbatim>\<open>process_sequence\<close> and inherits \<^verbatim>\<open>process_frame\<close>.
\<close>

fun is_DataProcessor_instance :: "'a pyobj \<Rightarrow> bool" where
  "is_DataProcessor_instance (Source src) = False"
| "is_DataProcessor_instance (DataProcessor pf ps) = True"
| "is_DataProcessor_instance (Pipeline dps) = True"

fun overrides_process_frame :: "'a pyobj \<Rightarrow> bool" where
  "overrides_process_frame (Source src) = False"
| "overrides_process_frame (DataProcessor pf ps) = (pf \<noteq> None)"
| "overrides_process_frame (Pipeline dps) = False"

fun overrides_process_sequence :: "'a pyobj \<Rightarrow> bool" where
  "overrides_process_sequence (Source src) = False"
| "overrides_process_sequence (DataProcessor pf ps) = (ps \<noteq> None)"
| "overrides_process_sequence (Pipeline dps) = True"

section \<open>Sample stages\<close>

text \<open>
  Concrete methods for subclasses, used to run the model on examples: a per-frame
  method that doubles its frame, and two per-sequence generator functions, one that
  yields nothing and never reads its input, and one that yields the first frame twice
  and then fails.
\<close>

definition double :: "nat \<Rightarrow> py_error + nat" where
  "double x = Inr (2 * x)"

definition drop_all :: "nat pyiter \<Rightarrow> nat pyiter" where
  "drop_all frames = Raise StopIteration"

definition echo_twice :: "nat pyiter \<Rightarrow> nat pyiter" where
  "echo_twice frames =
     (case frames of
        Raise e \<Rightarrow> Raise e
      | Yield x rest \<Rightarrow> Yield x (Yield x (Raise TypeError)))"

section \<open>Draining iterators\<close>

lemma list_of_iter_iter_list: "list_of_iter (iter_list xs) acc = Some (Inr (acc @ xs))"
proof (induction xs arbitrary: acc)
  case Nil
  show ?case by (subst list_of_iter.simps) simp
next
  case (Cons x xs)
  show ?case by (subst list_of_iter.simps) (simp add: Cons)
qed

text \<open>Only an iterator over a finite list drains to a list.\<close>

lemma list_of_iter_Inr:
  "list_of_iter it acc = Some (Inr ys) \<Longrightarrow> \<exists>xs. ys = acc @ xs \<and> it = iter_list xs"
proof (induction it acc "Inr ys :: py_error + 'a list"
    rule: list_of_iter.raw_induct[rotated 1, consumes 1])
  case (1 f it acc)
  show ?case
  proof (cases it)
    case (Raise e)
    with 1(2) show ?thesis by (auto split: if_splits intro: exI[of _ "[]"])
  next
    case (Yield x rest)
    with 1(2) have "f rest (acc @ [x]) = Some (Inr ys)" by simp
    from 1(1)[OF this] obtain xs where "ys = (acc @ [x]) @ xs" "rest = iter_list xs"
      by blast
    then show ?thesis using Yield by (intro exI[of _ "x # xs"]) simp
  qed
qed

lemma list_of_iter_exact: "list_of_iter it [] = Some (Inr ys) \<Longrightarrow> it = iter_list ys"
  using list_of_iter_Inr[of it "[]" ys] by simp

section \<open>The default methods\<close>

lemma inherited_process_frame:
  assumes "is_DataProcessor_instance self" and "\<not> overrides_process_frame self"
  shows "process_frame (Suc d) self f =
           DataProcessor_process_frame (process_sequence d self) f"
  using assms by (cases self) auto

lemma default_cycle_RuntimeError:
  "process_frame d (DataProcessor None None) f = Inl RuntimeError"
proof (induction d)
  case 0
  show ?case by simp
next
  case (Suc d)
  show ?case
    by (simp add: DataProcessor_process_frame_def pynext_def
        DataProcessor_process_sequence.code Suc)
qed

lemma map_process_frame:
  assumes "\<forall>x\<in>set xs. \<exists>y. g x = Inr y"
  shows "DataProcessor_process_sequence g (iter_list xs) =
           iter_list (map (\<lambda>x. projr (g x)) xs)"
  using assms
proof (induction xs)
  case Nil
  show ?case by (simp add: DataProcessor_process_sequence.code)
next
  case (Cons x xs)
  then obtain y where "g x = Inr y" by auto
  with Cons show ?case
    by (subst DataProcessor_process_sequence.code) simp
qed

text \<open>
  One pull of the inherited \<^verbatim>\<open>process_sequence\<close>: it pulls one frame from its input
  and calls \<^verbatim>\<open>process_frame\<close> on it, whether or not the input ever ends.
\<close>

lemma default_process_sequence_pull:
  "pynext (DataProcessor_process_sequence pf frames) =
     (case pynext frames of
        Inl e \<Rightarrow> Inl e
      | Inr (x, rest) \<Rightarrow>
          (case pf x of
             Inl e \<Rightarrow> Inl e
           | Inr y \<Rightarrow> Inr (y, DataProcessor_process_sequence pf rest)))"
  by (simp add: pynext_def DataProcessor_process_sequence.code
      split: pyiter.splits sum.splits)

text \<open>
  Claim C1. A \<^verbatim>\<open>DataProcessor\<close> subclass that overrides \<^verbatim>\<open>process_frame\<close> and inherits
  \<^verbatim>\<open>process_sequence\<close>: on an input sequence \<open>xs\<close> on each frame of which \<^verbatim>\<open>process_frame\<close>
  returns a result, the inherited \<^verbatim>\<open>process_sequence\<close> returns a generator that drains to
  a sequence of the same length whose \<open>i\<close>-th element is what \<^verbatim>\<open>process_frame\<close> returns on
  the \<open>i\<close>-th input frame.
\<close>

theorem default_process_sequence_elementwise:
  assumes "is_DataProcessor_instance self"
      and "overrides_process_frame self"
      and "\<not> overrides_process_sequence self"
      and "\<forall>x\<in>set xs. \<exists>y. process_frame d self x = Inr y"
  shows "\<exists>gen ys. process_sequence d self (iter_list xs) = Inr gen
           \<and> list_of_iter gen [] = Some (Inr ys)
           \<and> length ys = length xs
           \<and> (\<forall>i<length xs. process_frame d self (xs ! i) = Inr (ys ! i))"
proof -
  from assms(1-3) obtain g where self: "self = DataProcessor (Some g) None"
    by (cases self) auto
  let ?ys = "map (\<lambda>x. projr (g x)) xs"
  from assms(4) have ok: "\<forall>x\<in>set xs. \<exists>y. g x = Inr y"
    by (simp add: self)
  have pf: "process_frame d self = g"
    by (rule ext) (simp add: self)
  have gen: "process_sequence d self (iter_list xs) = Inr (iter_list ?ys)"
    using map_process_frame[OF ok] pf by (simp add: self)
  have el: "process_frame d self (xs ! i) = Inr (?ys ! i)" if "i < length xs" for i
  proof -
    from that ok obtain y where "g (xs ! i) = Inr y" by (meson nth_mem)
    with that show ?thesis by (simp add: self)
  qed
  show ?thesis
    using gen el
    by (intro exI[of _ "iter_list ?ys"] exI[of _ ?ys]) (simp add: list_of_iter_iter_list)
qed

theorem default_process_sequence_elementwise_witness:
  "\<exists>gen ys. process_sequence 0 (DataProcessor (Some double) None) (iter_list [1, 2, 3]) = Inr gen
     \<and> list_of_iter gen [] = Some (Inr ys)
     \<and> length ys = length [1, 2, 3 :: nat]
     \<and> (\<forall>i<length [1, 2, 3 :: nat].
          process_frame 0 (DataProcessor (Some double) None) ([1, 2, 3] ! i) = Inr (ys ! i))"
  by (rule default_process_sequence_elementwise) (simp_all add: double_def)

text \<open>
  Claim C2. A \<^verbatim>\<open>DataProcessor\<close> subclass that overrides \<^verbatim>\<open>process_sequence\<close> and inherits
  \<^verbatim>\<open>process_frame\<close> (a \<^verbatim>\<open>Pipeline\<close> is one): when \<^verbatim>\<open>process_sequence([f])\<close> yields exactly
  one element \<open>y\<close>, \<^verbatim>\<open>process_frame(f)\<close> returns \<open>y\<close>. The call of the inherited
  \<^verbatim>\<open>process_frame\<close> takes one activation, so its body runs with \<open>d\<close> left.
\<close>

theorem default_process_frame_sole_element:
  assumes "is_DataProcessor_instance self"
      and "\<not> overrides_process_frame self"
      and "overrides_process_sequence self"
      and "process_sequence d self (iter_list [f]) = Inr gen"
      and "list_of_iter gen [] = Some (Inr [y])"
  shows "process_frame (Suc d) self f = Inr y"
proof -
  from assms(5) have "gen = iter_list [y]"
    by (rule list_of_iter_exact)
  with assms(4) show ?thesis
    by (simp add: inherited_process_frame[OF assms(1,2)] DataProcessor_process_frame_def
        pynext_def)
qed

theorem default_process_frame_sole_element_witness:
  "process_sequence 0 (DataProcessor None (Some id)) (iter_list [5 :: nat]) = Inr (iter_list [5])
   \<and> list_of_iter (iter_list [5 :: nat]) [] = Some (Inr [5])
   \<and> process_frame (Suc 0) (DataProcessor None (Some id)) (5 :: nat) = Inr 5"
proof -
  have gen: "process_sequence 0 (DataProcessor None (Some id)) (iter_list [5 :: nat])
      = Inr (iter_list [5])"
    by simp
  have one: "list_of_iter (iter_list [5 :: nat]) [] = Some (Inr [5])"
    by (simp add: list_of_iter.simps)
  show ?thesis
    using gen one default_process_frame_sole_element[OF _ _ _ gen one] by simp
qed

text \<open>
  Claim C5, as the code has it. Under the same conditions, when \<^verbatim>\<open>process_sequence([f])\<close>
  yields nothing, \<^verbatim>\<open>process_frame(f)\<close> fails with the \<open>StopIteration\<close> that \<^verbatim>\<open>next()\<close> raises
  on the exhausted generator. The source defines no \<open>StarvationError\<close>.
\<close>

theorem default_process_frame_empty_StopIteration:
  assumes "is_DataProcessor_instance self"
      and "\<not> overrides_process_frame self"
      and "overrides_process_sequence self"
      and "process_sequence d self (iter_list [f]) = Inr gen"
      and "list_of_iter gen [] = Some (Inr [])"
  shows "process_frame (Suc d) self f = Inl StopIteration"
proof -
  from assms(5) have "gen = iter_list []"
    by (rule list_of_iter_exact)
  with assms(4) show ?thesis
    by (simp add: inherited_process_frame[OF assms(1,2)] DataProcessor_process_frame_def
        pynext_def)
qed

theorem default_process_frame_empty_StopIteration_witness:
  "process_sequence 0 (DataProcessor None (Some drop_all)) (iter_list [5]) = Inr (iter_list [])
   \<and> list_of_iter (iter_list ([] :: nat list)) [] = Some (Inr [])
   \<and> process_frame (Suc 0) (DataProcessor None (Some drop_all)) 5 = Inl StopIteration"
proof -
  have gen: "process_sequence 0 (DataProcessor None (Some drop_all)) (iter_list [5])
      = Inr (iter_list [])"
    by (simp add: drop_all_def)
  have none: "list_of_iter (iter_list ([] :: nat list)) [] = Some (Inr [])"
    by (simp add: list_of_iter.simps)
  show ?thesis
    using gen none default_process_frame_empty_StopIteration[OF _ _ _ gen none] by simp
qed

text \<open>
  Claim C5 as stated fails: with a \<^verbatim>\<open>process_sequence\<close> that yields nothing for \<^verbatim>\<open>[5]\<close>, the
  inherited \<^verbatim>\<open>process_frame(5)\<close> raises \<open>StopIteration\<close>, not \<open>StarvationError\<close>.
\<close>

theorem default_process_frame_StarvationError_counterexample:
  "process_sequence 0 (DataProcessor None (Some drop_all)) (iter_list [5])
     = Inr (Raise StopIteration)
   \<and> process_frame (Suc 0) (DataProcessor None (Some drop_all)) 5 = Inl StopIteration
   \<and> process_frame (Suc 0) (DataProcessor None (Some drop_all)) 5 \<noteq> Inl StarvationError"
  by (simp add: drop_all_def DataProcessor_process_frame_def pynext_def)

text \<open>
  Claim C10. Under the same conditions, when \<^verbatim>\<open>process_sequence([f])\<close> yields more than one
  element, \<^verbatim>\<open>process_frame(f)\<close> returns the first. The result does not depend on the second
  element or on what the generator would do after it (yield more, stop, or raise): the
  generator is pulled once.
\<close>

theorem default_process_frame_first_of_many:
  assumes "is_DataProcessor_instance self"
      and "\<not> overrides_process_frame self"
      and "overrides_process_sequence self"
      and "process_sequence d self (iter_list [f]) = Inr (Yield y (Yield y' rest))"
  shows "process_frame (Suc d) self f = Inr y"
  using assms(4)
  by (simp add: inherited_process_frame[OF assms(1,2)] DataProcessor_process_frame_def
      pynext_def)

theorem default_process_frame_first_of_many_witness:
  "process_sequence 0 (DataProcessor None (Some echo_twice)) (iter_list [5])
     = Inr (Yield 5 (Yield 5 (Raise TypeError)))
   \<and> process_frame (Suc 0) (DataProcessor None (Some echo_twice)) 5 = Inr 5"
proof -
  have gen: "process_sequence 0 (DataProcessor None (Some echo_twice)) (iter_list [5])
     = Inr (Yield 5 (Yield 5 (Raise TypeError)))"
    by (simp add: echo_twice_def)
  show ?thesis
    using gen default_process_frame_first_of_many[OF _ _ _ gen] by simp
qed

text \<open>
  Claim C4, as the code has it. For a subclass that overrides neither method,
  \<^verbatim>\<open>process_frame(f)\<close> never returns a result: the two inherited methods call each other
  until the recursion limit is reached, whatever it is, and the call fails with
  \<open>RuntimeError\<close>. \<^verbatim>\<open>process_sequence(frames)\<close> does not fail: it returns a generator. That
  generator ends or fails as \<^verbatim>\<open>frames\<close> does when \<^verbatim>\<open>frames\<close> yields nothing, and fails with the
  same \<open>RuntimeError\<close> on its first pull otherwise.
\<close>

theorem neither_overridden_recursion_limit:
  "process_frame d (DataProcessor None None) f = Inl RuntimeError
   \<and> (\<exists>gen. process_sequence d (DataProcessor None None) frames = Inr gen
         \<and> pynext gen = (case pynext frames of
                           Inl e \<Rightarrow> Inl e
                         | Inr (x, rest) \<Rightarrow> Inl RuntimeError))"
proof -
  have pf: "process_frame d (DataProcessor None None) = (\<lambda>x. Inl RuntimeError)"
    by (rule ext) (rule default_cycle_RuntimeError)
  show ?thesis
    by (simp add: default_cycle_RuntimeError pf pynext_def
        DataProcessor_process_sequence.code split: pyiter.splits)
qed

text \<open>
  Claim C4 as stated fails: with neither method overridden and a recursion limit of 1000,
  \<^verbatim>\<open>process_frame(0)\<close> fails with \<open>RuntimeError\<close>, not \<open>ConfigurationError\<close>, and
  \<^verbatim>\<open>process_sequence([])\<close> returns a generator that simply ends.
\<close>

theorem neither_overridden_counterexample:
  "process_frame 1000 (DataProcessor None None) (0 :: nat) = Inl RuntimeError
   \<and> process_frame 1000 (DataProcessor None None) (0 :: nat) \<noteq> Inl ConfigurationError
   \<and> process_sequence 1000 (DataProcessor None None) (iter_list ([] :: nat list))
       = Inr (Raise StopIteration)"
  by (simp add: default_cycle_RuntimeError DataProcessor_process_sequence.code)

section \<open>Pipelines\<close>

lemma chain_append:
  "chain d (xs @ ys) gen =
     (case chain d xs gen of Inl e \<Rightarrow> Inl e | Inr g \<Rightarrow> chain d ys g)"
  by (induction xs arbitrary: gen) (auto split: sum.splits)

text \<open>A nested \<^verbatim>\<open>Pipeline\<close> with at least one stage runs its stages in a row.\<close>

lemma process_sequence_Pipeline_chain:
  "inner \<noteq> [] \<Longrightarrow> process_sequence d (Pipeline inner) frames = chain d inner frames"
  by (cases inner) auto

lemma chain_flatten:
  assumes "inner \<noteq> []"
  shows "chain d (pre @ Pipeline inner # post) gen = chain d (pre @ inner @ post) gen"
  using assms
  by (simp add: chain_append process_sequence_Pipeline_chain split: sum.splits)

text \<open>
  The only exceptions raised by the call of \<^verbatim>\<open>process_sequence\<close> itself, before any frame
  is pulled, are those of a missing method and of an empty \<^verbatim>\<open>dps\<close>.
\<close>

lemma eager_errors:
  fixes obj :: "'a pyobj" and f :: 'a and frames gen :: "'a pyiter"
    and dps :: "'a pyobj list"
  shows "process_frame d obj f = process_frame d obj f"
    and "process_sequence d obj frames = Inl e \<Longrightarrow> e = AttributeError \<or> e = IndexError"
    and "chain d dps gen = Inl e \<Longrightarrow> e = AttributeError \<or> e = IndexError"
  by (induction d obj f and d obj frames and d dps gen
      rule: process_frame_process_sequence_chain.induct)
     (auto split: sum.splits)

lemma chain_Source:
  "\<exists>e. chain d (pre @ Source src # post) gen = Inl e
        \<and> (e = AttributeError \<or> e = IndexError)"
proof (cases "chain d pre gen")
  case (Inl e)
  then show ?thesis
    using eager_errors(3)[OF Inl] by (simp add: chain_append)
next
  case (Inr g)
  then show ?thesis
    by (simp add: chain_append)
qed

lemma asarray_of_iter_Raise:
  "e \<noteq> StopIteration \<Longrightarrow> asarray_of_iter asarray (Raise e) = Some (Inl e)"
  by (simp add: asarray_of_iter_def list_of_iter.simps)

lemma asarray_of_iter_iter_list:
  "asarray_of_iter asarray (iter_list xs) = Some (asarray xs)"
  by (simp add: asarray_of_iter_def list_of_iter_iter_list)

text \<open>
  Flattening a nested \<^verbatim>\<open>Pipeline\<close> that receives its input from the caller or from an
  earlier stage.
\<close>

lemma flatten_fed:
  assumes "inner \<noteq> []" and "frames \<noteq> None \<or> pre \<noteq> []"
  shows "Pipeline_process_sequence d (pre @ Pipeline inner # post) frames
           = Pipeline_process_sequence d (pre @ inner @ post) frames"
proof (cases pre)
  case Nil
  with assms(2) obtain fr where fr: "frames = Some fr"
    by auto
  from assms(1) obtain i0 irest where inner: "inner = i0 # irest"
    by (cases inner) auto
  show ?thesis
    by (simp add: Nil fr inner chain_append split: sum.splits)
next
  case (Cons p0 prest)
  show ?thesis
  proof (cases frames)
    case None
    then show ?thesis
      using assms(1) by (simp add: Cons chain_flatten)
  next
    case (Some fr)
    then show ?thesis
      using assms(1) by (simp add: Cons chain_flatten split: sum.splits)
  qed
qed

text \<open>
  Flattening a nested \<^verbatim>\<open>Pipeline\<close> that is the first stage, with \<^verbatim>\<open>frames\<close> omitted: the
  outer \<^verbatim>\<open>Pipeline\<close> hands the nested object to the second stage, which iterates over it.
\<close>

lemma Pipeline_process_sequence_None_chain:
  "dps \<noteq> [] \<Longrightarrow>
     Pipeline_process_sequence d (dp # dps) None =
       (case chain d dps (py_iter d dp) of
          Inl e \<Rightarrow> Inl e
        | Inr gen \<Rightarrow> Inr (Gen gen))"
  by simp

lemma py_iter_nested:
  assumes "flattens_as_first_stage d inner"
  shows "Pipeline_process_sequence d inner None = Inr v \<Longrightarrow>
           py_iter d (Pipeline inner) = val_iter d v"
    and "\<exists>v. Pipeline_process_sequence d inner None = Inr v"
  using assms
  by (auto simp: flattens_as_first_stage_def split: sum.splits pyval.splits pyobj.splits)

lemma flatten_first_fed:
  assumes "flattens_as_first_stage d inner" and "post \<noteq> []"
  shows "Pipeline_process_sequence d (Pipeline inner # post) None
           = Pipeline_process_sequence d (inner @ post) None"
proof -
  from py_iter_nested(2)[OF assms(1)] obtain v
    where v: "Pipeline_process_sequence d inner None = Inr v"
    by blast
  have it: "py_iter d (Pipeline inner) = val_iter d v"
    by (rule py_iter_nested(1)[OF assms(1) v])
  from v obtain i0 irest where inner: "inner = i0 # irest"
    by (cases inner) auto
  have lhs: "Pipeline_process_sequence d (Pipeline inner # post) None =
      (case chain d post (val_iter d v) of Inl e \<Rightarrow> Inl e | Inr gen \<Rightarrow> Inr (Gen gen))"
    using assms(2) it by simp
  show ?thesis
  proof (cases irest)
    case Nil
    with v inner have "val_iter d v = py_iter d i0"
      by (auto split: if_splits)
    then show ?thesis
      using lhs assms(2) by (simp add: inner Nil)
  next
    case (Cons i1 irest')
    then have "irest \<noteq> []"
      by simp
    from v have "chain d irest (py_iter d i0) = Inr (val_iter d v)"
      unfolding inner Pipeline_process_sequence_None_chain[OF \<open>irest \<noteq> []\<close>]
      by (auto split: sum.splits)
    moreover have "irest @ post \<noteq> []"
      using assms(2) by simp
    ultimately show ?thesis
      using lhs
      by (simp add: inner Pipeline_process_sequence_None_chain chain_append
          del: Pipeline_process_sequence.simps)
  qed
qed

lemma flatten_only_stage:
  assumes "flattens_as_first_stage d inner"
  shows "map_sum id (val_iter d) (Pipeline_process_sequence d [Pipeline inner] None)
           = map_sum id (val_iter d) (Pipeline_process_sequence d inner None)"
proof -
  from py_iter_nested(2)[OF assms] obtain v
    where v: "Pipeline_process_sequence d inner None = Inr v"
    by blast
  show ?thesis
    using py_iter_nested(1)[OF assms v] by (simp add: v)
qed

text \<open>
  A \<^verbatim>\<open>Pipeline\<close> of a \<^verbatim>\<open>Source\<close> followed by plain \<^verbatim>\<open>DataProcessor\<close>s returns a generator from
  \<^verbatim>\<open>process_sequence()\<close>.
\<close>

lemma chain_DataProcessors:
  "\<forall>dp\<in>set dps. \<exists>pf ps. dp = DataProcessor pf ps \<Longrightarrow> \<exists>g. chain d dps gen = Inr g"
proof (induction dps arbitrary: gen)
  case Nil
  show ?case by simp
next
  case (Cons dp dps)
  then obtain pf ps where dp: "dp = DataProcessor pf ps"
    by auto
  from Cons have "\<exists>g. chain d dps gen' = Inr g" for gen'
    by simp
  then show ?case
    by (cases ps) (simp_all add: dp)
qed

lemma flattens_as_first_stage_Source:
  assumes "\<forall>dp\<in>set dps. \<exists>pf ps. dp = DataProcessor pf ps"
  shows "flattens_as_first_stage d (Source src # dps)"
proof (cases dps)
  case Nil
  then show ?thesis
    by (simp add: flattens_as_first_stage_def)
next
  case (Cons dp' dps')
  from chain_DataProcessors[OF assms] obtain g where "chain d dps src = Inr g"
    by blast
  then show ?thesis
    using Cons by (simp add: flattens_as_first_stage_def)
qed

text \<open>
  Claim C3, as the code has it. Let the nested \<^verbatim>\<open>Pipeline\<close> have at least one stage. Let an
  input sequence be supplied; or, with \<^verbatim>\<open>frames\<close> omitted, let the nested \<^verbatim>\<open>Pipeline\<close> not be
  the first stage, or let its own \<^verbatim>\<open>process_sequence()\<close> return a generator (as it does when
  its stages are a \<^verbatim>\<open>Source\<close> followed by plain \<^verbatim>\<open>DataProcessor\<close>s) or an object that is not
  iterable. Then the outer \<^verbatim>\<open>Pipeline\<close> and the \<^verbatim>\<open>Pipeline\<close> in which the nested one
  is replaced by its stages give the same: the same \<^verbatim>\<open>toarray\<close>, whatever \<^verbatim>\<open>np.asarray\<close> does;
  the same exception from the call of \<^verbatim>\<open>process_sequence\<close> or the same sequence when its
  result is iterated; and the same result of \<^verbatim>\<open>process_sequence\<close> itself, unless the
  nested \<^verbatim>\<open>Pipeline\<close> is the only stage and \<^verbatim>\<open>frames\<close> is omitted (the outer \<^verbatim>\<open>Pipeline\<close> then
  returns the nested object, not a generator).
\<close>

theorem nested_pipeline_flatten:
  assumes "inner \<noteq> []"
      and "frames \<noteq> None \<or> pre \<noteq> [] \<or> flattens_as_first_stage d inner"
  shows "Pipeline_toarray asarray d (pre @ Pipeline inner # post) frames
           = Pipeline_toarray asarray d (pre @ inner @ post) frames
         \<and> map_sum id (val_iter d)
             (Pipeline_process_sequence d (pre @ Pipeline inner # post) frames)
           = map_sum id (val_iter d)
             (Pipeline_process_sequence d (pre @ inner @ post) frames)
         \<and> (frames \<noteq> None \<or> pre \<noteq> [] \<or> post \<noteq> [] \<longrightarrow>
             Pipeline_process_sequence d (pre @ Pipeline inner # post) frames
               = Pipeline_process_sequence d (pre @ inner @ post) frames)"
proof -
  have same: "Pipeline_process_sequence d (pre @ Pipeline inner # post) frames
               = Pipeline_process_sequence d (pre @ inner @ post) frames"
    if "frames \<noteq> None \<or> pre \<noteq> [] \<or> post \<noteq> []"
  proof (cases "frames \<noteq> None \<or> pre \<noteq> []")
    case True
    then show ?thesis
      by (rule flatten_fed[OF assms(1)])
  next
    case False
    with that assms(2) have "flattens_as_first_stage d inner" and "post \<noteq> []"
      by simp_all
    then have "Pipeline_process_sequence d (Pipeline inner # post) None
        = Pipeline_process_sequence d (inner @ post) None"
      by (rule flatten_first_fed)
    then show ?thesis
      using False by (simp del: Pipeline_process_sequence.simps)
  qed
  have iter: "map_sum id (val_iter d)
             (Pipeline_process_sequence d (pre @ Pipeline inner # post) frames)
           = map_sum id (val_iter d)
             (Pipeline_process_sequence d (pre @ inner @ post) frames)"
  proof (cases "frames \<noteq> None \<or> pre \<noteq> [] \<or> post \<noteq> []")
    case True
    then show ?thesis
      by (simp only: same)
  next
    case False
    with assms(2) have "flattens_as_first_stage d inner"
      by simp
    then have "map_sum id (val_iter d) (Pipeline_process_sequence d [Pipeline inner] None)
        = map_sum id (val_iter d) (Pipeline_process_sequence d inner None)"
      by (rule flatten_only_stage)
    then show ?thesis
      using False by (simp del: Pipeline_process_sequence.simps)
  qed
  have "Pipeline_toarray asarray d dps frames =
      (case map_sum id (val_iter d) (Pipeline_process_sequence d dps frames) of
         Inl e \<Rightarrow> Some (Inl e)
       | Inr it \<Rightarrow> asarray_of_iter asarray it)" for dps
    by (simp add: Pipeline_toarray_def split: sum.splits)
  then show ?thesis
    using iter same by simp
qed

text \<open>
  The nested \<^verbatim>\<open>Pipeline\<close> as the first stage, \<^verbatim>\<open>frames\<close> omitted:
  \<^verbatim>\<open>Pipeline(Pipeline(Source [1, 2, 3]), Double())\<close> and \<^verbatim>\<open>Pipeline(Source [1, 2, 3], Double())\<close>,
  with an \<^verbatim>\<open>np.asarray\<close> that keeps every list as it is.
\<close>

theorem nested_pipeline_flatten_witness:
  "Pipeline_toarray Inr 1000
     [Pipeline [Source (iter_list [1, 2, 3])], DataProcessor (Some double) None] None
   = Pipeline_toarray Inr 1000
     [Source (iter_list [1, 2, 3]), DataProcessor (Some double) None] None
   \<and> Pipeline_toarray Inr 1000
     [Source (iter_list [1, 2, 3]), DataProcessor (Some double) None] None
     = Some (Inr [2, 4, 6])"
proof -
  have pf: "process_frame 1000 (DataProcessor (Some double) None) = double"
    by (rule ext) simp
  have flat: "Pipeline_toarray Inr 1000
     [Source (iter_list [1, 2, 3]), DataProcessor (Some double) None] None
     = Some (Inr [2, 4, 6])"
    by (simp add: Pipeline_toarray_def asarray_of_iter_def pf
        DataProcessor_process_sequence.code double_def list_of_iter.simps)
  have ne: "[Source (iter_list [1, 2, 3 :: nat])] \<noteq> []"
    by simp
  have ok: "None \<noteq> (None :: nat pyiter option) \<or> ([] :: nat pyobj list) \<noteq> []
      \<or> flattens_as_first_stage 1000 [Source (iter_list [1, 2, 3 :: nat])]"
    by (simp add: flattens_as_first_stage_def)
  show ?thesis
    using flat
      nested_pipeline_flatten[OF ne ok, of Inr "[DataProcessor (Some double) None]"]
    by simp
qed

text \<open>
  Claim C3 as stated fails, in three ways. With \<^verbatim>\<open>frames\<close> omitted,
  \<^verbatim>\<open>Pipeline(Pipeline(Pipeline(Source [1, 2, 3]))).toarray()\<close> raises \<open>TypeError\<close>: iterating over
  the nested \<^verbatim>\<open>Pipeline\<close> calls its \<^verbatim>\<open>process_sequence()\<close>, which returns the innermost
  \<^verbatim>\<open>Pipeline\<close> object, not an iterator; with the nested one replaced by its stage,
  \<^verbatim>\<open>Pipeline(Pipeline(Source [1, 2, 3])).toarray()\<close> gives the three frames. A nested
  \<^verbatim>\<open>Pipeline\<close> in first position whose own \<^verbatim>\<open>process_sequence()\<close> raises does so only when the
  second stage pulls, which a stage that yields nothing never does; flattened, the call
  itself raises. And a nested \<^verbatim>\<open>Pipeline()\<close> without stages raises \<open>IndexError\<close> when the outer
  \<^verbatim>\<open>Pipeline\<close> calls it, while the \<^verbatim>\<open>Pipeline\<close> without it doubles the frames \<^verbatim>\<open>[1, 2, 3]\<close>.
\<close>

theorem nested_pipeline_counterexample:
  "Pipeline_toarray Inr 1000 [Pipeline [Pipeline [Source (iter_list [1, 2, 3 :: nat])]]] None
     = Some (Inl TypeError)
   \<and> Pipeline_toarray Inr 1000 [Pipeline [Source (iter_list [1, 2, 3 :: nat])]] None
     = Some (Inr [1, 2, 3])
   \<and> Pipeline_toarray Inr 1000
       [Pipeline [Source (iter_list [1, 2, 3]), Source (iter_list [4])],
        DataProcessor None (Some drop_all)] None
     = Some (Inr [])
   \<and> Pipeline_toarray Inr 1000
       [Source (iter_list [1, 2, 3]), Source (iter_list [4]),
        DataProcessor None (Some drop_all)] None
     = Some (Inl AttributeError)
   \<and> Pipeline_process_sequence 1000
       [DataProcessor (Some double) None, Pipeline []] (Some (iter_list [1, 2, 3]))
     = Inl IndexError
   \<and> Pipeline_process_sequence 1000
       [DataProcessor (Some double) None] (Some (iter_list [1, 2, 3]))
     = Inr (Gen (iter_list [2, 4, 6]))"
proof -
  have pf: "process_frame 1000 (DataProcessor (Some double) None) = double"
    by (rule ext) simp
  show ?thesis
    by (simp add: pf DataProcessor_process_sequence.code double_def drop_all_def
        Pipeline_toarray_def asarray_of_iter_def list_of_iter.simps)
qed

text \<open>
  Claim C6, as the code has it. \<^verbatim>\<open>Pipeline()\<close> is constructed without an error. Its first
  use fails with \<open>IndexError\<close>, raised by \<^verbatim>\<open>self.dps[0]\<close>: the call of \<^verbatim>\<open>process_sequence\<close> or of
  \<^verbatim>\<open>toarray\<close>, with or without \<^verbatim>\<open>frames\<close>, and the first pull of a loop over it.
\<close>

theorem empty_pipeline_IndexError:
  "Pipeline_init ([] :: 'a pyobj list) = Inr (Pipeline [])
   \<and> Pipeline_process_sequence d ([] :: 'a pyobj list) frames = Inl IndexError
   \<and> Pipeline_toarray asarray d ([] :: 'a pyobj list) frames = Some (Inl IndexError)
   \<and> py_iter d (Pipeline [] :: 'a pyobj) = Raise IndexError"
  by (simp add: Pipeline_init_def Pipeline_toarray_def)

text \<open>
  Claim C6 as stated fails: neither the construction of \<^verbatim>\<open>Pipeline()\<close> nor its first use
  raises \<open>ConfigurationError\<close>.
\<close>

theorem empty_pipeline_counterexample:
  "Pipeline_init ([] :: nat pyobj list) = Inr (Pipeline [])
   \<and> Pipeline_process_sequence 1000 ([] :: nat pyobj list) None = Inl IndexError
   \<and> Pipeline_process_sequence 1000 ([] :: nat pyobj list) None \<noteq> Inl ConfigurationError
   \<and> Pipeline_toarray Inr 1000 ([] :: nat pyobj list) None \<noteq> Some (Inl ConfigurationError)"
  by (simp add: Pipeline_init_def Pipeline_toarray_def)

text \<open>
  Claim C7, as the code has it. With \<^verbatim>\<open>frames\<close> omitted, \<^verbatim>\<open>process_sequence\<close> does not check
  its first stage: a first stage that is not a \<^verbatim>\<open>Source\<close> is itself taken as the input. It is
  returned as it is when it is the only stage, and the second stage iterates over it
  otherwise. \<^verbatim>\<open>toarray()\<close> of the one-stage \<^verbatim>\<open>Pipeline\<close> then is \<^verbatim>\<open>np.asarray\<close> of the list of what
  iterating over that stage gives.
\<close>

theorem frames_omitted_first_stage_unchecked:
  assumes "\<not> is_Source dp"
  shows "Pipeline_process_sequence d [dp] None = Inr (Obj dp)
   \<and> Pipeline_process_sequence d (dp # dp' # dps) None =
       (case chain d (dp' # dps) (py_iter d dp) of
          Inl e \<Rightarrow> Inl e
        | Inr gen \<Rightarrow> Inr (Gen gen))
   \<and> Pipeline_toarray asarray d [dp] None = asarray_of_iter asarray (py_iter d dp)"
  using assms by (simp add: Pipeline_toarray_def)

text \<open>
  A \<^verbatim>\<open>DataProcessor\<close> as the only stage: \<^verbatim>\<open>process_sequence()\<close> returns it, and \<^verbatim>\<open>toarray()\<close>
  fails with \<open>TypeError\<close> since it is not iterable.
\<close>

theorem frames_omitted_first_stage_unchecked_witness:
  "Pipeline_process_sequence 1000 [DataProcessor (Some double) None] None
     = Inr (Obj (DataProcessor (Some double) None))
   \<and> Pipeline_toarray Inr 1000 [DataProcessor (Some double) None] None
     = Some (Inl TypeError)"
  using frames_omitted_first_stage_unchecked[of "DataProcessor (Some double) None" 1000 _ _ Inr]
  by (simp add: asarray_of_iter_Raise)

text \<open>
  Claim C7 as stated fails: \<^verbatim>\<open>process_sequence()\<close> of a \<^verbatim>\<open>Pipeline\<close> whose only stage is a
  \<^verbatim>\<open>DataProcessor\<close> returns that stage and raises nothing.
\<close>

theorem frames_omitted_counterexample:
  "Pipeline_process_sequence 1000 [DataProcessor (Some double) None] None
     = Inr (Obj (DataProcessor (Some double) None))
   \<and> Pipeline_process_sequence 1000 [DataProcessor (Some double) None] None
     \<noteq> Inl ConfigurationError"
  by simp

text \<open>
  Claim C8, as the code has it. A \<^verbatim>\<open>Pipeline\<close> with a \<^verbatim>\<open>Source\<close> after position 0 is
  constructed without an error. Every call of its \<^verbatim>\<open>process_sequence\<close> or \<^verbatim>\<open>toarray\<close>, with or
  without \<^verbatim>\<open>frames\<close>, fails before any frame is pulled, with \<open>AttributeError\<close> or
  \<open>IndexError\<close>: the \<^verbatim>\<open>Source\<close> has no \<^verbatim>\<open>process_sequence\<close>, unless an earlier stage has failed
  already. With the \<^verbatim>\<open>Source\<close> at position 1 and \<^verbatim>\<open>frames\<close> omitted it is \<open>AttributeError\<close>.
\<close>

theorem generator_only_stage_errors:
  "Pipeline_init (dp # pre @ Source src # post) = Inr (Pipeline (dp # pre @ Source src # post))
   \<and> (\<exists>e. Pipeline_process_sequence d (dp # pre @ Source src # post) frames = Inl e
         \<and> Pipeline_toarray asarray d (dp # pre @ Source src # post) frames = Some (Inl e)
         \<and> (e = AttributeError \<or> e = IndexError))
   \<and> Pipeline_process_sequence d (dp # Source src # post) None = Inl AttributeError"
proof -
  have "\<exists>e. Pipeline_process_sequence d (dp # pre @ Source src # post) frames = Inl e
         \<and> (e = AttributeError \<or> e = IndexError)"
  proof (cases frames)
    case None
    obtain e where "chain d (pre @ Source src # post) (py_iter d dp) = Inl e"
      "e = AttributeError \<or> e = IndexError"
      using chain_Source by blast
    then show ?thesis
      using None by simp
  next
    case (Some fr)
    show ?thesis
    proof (cases "process_sequence d dp fr")
      case (Inl e)
      then show ?thesis
        using Some eager_errors(2)[OF Inl] by simp
    next
      case (Inr g)
      obtain e where "chain d (pre @ Source src # post) g = Inl e"
        "e = AttributeError \<or> e = IndexError"
        using chain_Source by blast
      then show ?thesis
        using Some Inr by simp
    qed
  qed
  then show ?thesis
    by (auto simp: Pipeline_init_def Pipeline_toarray_def)
qed

text \<open>
  Claim C8 as stated fails: a \<^verbatim>\<open>Pipeline\<close> of two \<^verbatim>\<open>Source\<close>s is constructed without an error,
  and its \<^verbatim>\<open>process_sequence()\<close> raises \<open>AttributeError\<close>, not \<open>ConfigurationError\<close>.
\<close>

theorem generator_only_stage_counterexample:
  "Pipeline_init [Source (iter_list [1, 2, 3 :: nat]), Source (iter_list [4])]
     = Inr (Pipeline [Source (iter_list [1, 2, 3]), Source (iter_list [4])])
   \<and> Pipeline_process_sequence 1000
       [Source (iter_list [1, 2, 3 :: nat]), Source (iter_list [4])] None
     = Inl AttributeError
   \<and> Pipeline_process_sequence 1000
       [Source (iter_list [1, 2, 3 :: nat]), Source (iter_list [4])] None
     \<noteq> Inl ConfigurationError"
  by (simp add: Pipeline_init_def)

section \<open>Sources\<close>

text \<open>
  \<^verbatim>\<open>toarray()\<close> of a \<^verbatim>\<open>Source\<close> that produces the frames \<open>xs\<close> and then stops hands exactly
  \<open>xs\<close>, in the order produced, to \<^verbatim>\<open>np.asarray\<close> and returns what that returns or raises.
\<close>

lemma Source_toarray_asarray:
  "Source_toarray asarray d (Source (iter_list xs)) = Some (asarray xs)"
  by (simp add: Source_toarray_def asarray_of_iter_iter_list)

text \<open>
  Claim C9. Let \<^verbatim>\<open>np.asarray\<close> put the frames \<open>xs\<close> into an array as they are: one entry per
  frame, each entry equal to its frame (frames of one shape and one element type; numpy
  converts frames of mixed element types, and the entries then differ from the frames).
  Then \<^verbatim>\<open>toarray()\<close> of a \<^verbatim>\<open>Source\<close> that produces \<open>xs\<close> and then stops returns an array with as
  many entries as frames produced, the \<open>i\<close>-th entry being the \<open>i\<close>-th frame produced.
\<close>

theorem Source_toarray_finite:
  assumes "asarray xs = Inr xs"
  shows "\<exists>arr. Source_toarray asarray d (Source (iter_list xs)) = Some (Inr arr)
           \<and> length arr = length xs
           \<and> (\<forall>i<length xs. arr ! i = xs ! i)"
  using assms by (simp add: Source_toarray_asarray)

theorem Source_toarray_finite_witness:
  "\<exists>arr. Source_toarray Inr 0 (Source (iter_list [1, 2, 3 :: nat])) = Some (Inr arr)
     \<and> length arr = length [1, 2, 3 :: nat]
     \<and> (\<forall>i<length [1, 2, 3 :: nat]. arr ! i = [1, 2, 3] ! i)"
  by (rule Source_toarray_finite) simp

end
